theory Spec2Isabelle
  imports Complex_Main "HOL-Library.Word" "HOL-Library.Sublist"
begin

section \<open>JavaScript values used by the server\<close>

text \<open>
  A JavaScript string is a sequence of 16-bit code units, and string equality
  (\<^verbatim>\<open>===\<close>) is equality of these sequences. \<open>utf16\<close> writes an ASCII literal.
\<close>

type_synonym jsstring = "16 word list"

definition utf16 :: "string \<Rightarrow> jsstring" where
  "utf16 s = map of_char s"

text \<open>
  The values \<^verbatim>\<open>JSON.parse\<close> can return. An object is the list of its own
  properties, each key once; a number is never inspected by the server.
\<close>

datatype json =
    JNull
  | JBool bool
  | JNum rat
  | JStr jsstring
  | JArr "json list"
  | JObj "(jsstring \<times> json) list"

text \<open>What a statement of the \<^verbatim>\<open>try\<close> block can throw.\<close>

datatype error = IOError | SyntaxError | TypeError

subsection \<open>\<^verbatim>\<open>parseInt(string)\<close> with the radix left undefined\<close>

text \<open>
  ECMAScript \<^verbatim>\<open>parseInt\<close>: leading white space is skipped, one sign is read,
  a \<^verbatim>\<open>0x\<close>/\<^verbatim>\<open>0X\<close> prefix selects radix 16 (radix 10 otherwise), and the
  longest run of digits of that radix is the number. No digit at all gives NaN,
  here \<open>None\<close>. \<open>Some n\<close> is the integer read, before its conversion to a double:
  the conversion is monotone and keeps every integer up to \<open>2^53\<close>, and the only
  use of the number is as the end index of \<^verbatim>\<open>slice\<close> on a sequence shorter
  than \<open>2^53\<close> (an array is shorter than \<open>2^32\<close>), where the index is clamped
  to the length, so the rounding never changes the slice; \<^verbatim>\<open>-0\<close> is \<open>0\<close> for
  the same reason.
\<close>

definition isWhiteSpace :: "16 word \<Rightarrow> bool" where
  "isWhiteSpace c \<longleftrightarrow>
     c = 0x0009 \<or> c = 0x000A \<or> c = 0x000B \<or> c = 0x000C \<or> c = 0x000D \<or>
     c = 0x0020 \<or> c = 0x00A0 \<or> c = 0x1680 \<or> (0x2000 \<le> c \<and> c \<le> 0x200A) \<or>
     c = 0x2028 \<or> c = 0x2029 \<or> c = 0x202F \<or> c = 0x205F \<or> c = 0x3000 \<or>
     c = 0xFEFF"

definition digitValue :: "16 word \<Rightarrow> nat option" where
  "digitValue c =
     (if 0x30 \<le> c \<and> c \<le> 0x39 then Some (unat c - 0x30)
      else if 0x61 \<le> c \<and> c \<le> 0x7A then Some (unat c - 0x61 + 10)
      else if 0x41 \<le> c \<and> c \<le> 0x5A then Some (unat c - 0x41 + 10)
      else None)"

definition radixDigit :: "nat \<Rightarrow> 16 word \<Rightarrow> bool" where
  "radixDigit R c = (case digitValue c of None \<Rightarrow> False | Some d \<Rightarrow> d < R)"

definition digitNat :: "16 word \<Rightarrow> nat" where
  "digitNat c = (case digitValue c of None \<Rightarrow> 0 | Some d \<Rightarrow> d)"

definition mathInt :: "nat \<Rightarrow> jsstring \<Rightarrow> nat" where
  "mathInt R Z = foldl (\<lambda>n c. n * R + digitNat c) 0 Z"

definition parseInt :: "jsstring \<Rightarrow> int option" where
  "parseInt inputString =
     (let S = dropWhile isWhiteSpace inputString;
          sign = (if S \<noteq> [] \<and> hd S = 0x2D then - 1 else 1);
          S = (if S \<noteq> [] \<and> (hd S = 0x2B \<or> hd S = 0x2D) then tl S else S);
          stripPrefix = (2 \<le> length S \<and> (take 2 S = [0x30, 0x78] \<or> take 2 S = [0x30, 0x58]));
          R = (if stripPrefix then 16 else 10);
          S = (if stripPrefix then drop 2 S else S);
          Z = takeWhile (radixDigit R) S
      in if Z = [] then None else Some (sign * int (mathInt R Z)))"

subsection \<open>\<^verbatim>\<open>slice(0, end)\<close> of arrays and strings\<close>

text \<open>
  \<^verbatim>\<open>Array.prototype.slice\<close> and \<^verbatim>\<open>String.prototype.slice\<close> compute the end
  position the same way: NaN counts as \<open>0\<close>, a negative end counts from the back
  and stops at \<open>0\<close>, any other end stops at the length.
\<close>

definition sliceFinal :: "nat \<Rightarrow> int option \<Rightarrow> nat" where
  "sliceFinal len end =
     (let relativeEnd = (case end of None \<Rightarrow> 0 | Some n \<Rightarrow> n)
      in if relativeEnd < 0 then nat (max (int len + relativeEnd) 0)
         else nat (min relativeEnd (int len)))"

definition slice0 :: "'a list \<Rightarrow> int option \<Rightarrow> 'a list" where
  "slice0 xs end = take (sliceFinal (length xs) end) xs"

text \<open>
  \<^verbatim>\<open>productData.slice(0, end)\<close>: arrays and strings have the method; \<^verbatim>\<open>null\<close>
  has no properties, and on every other value \<^verbatim>\<open>slice\<close> is not a function.
\<close>

fun call_slice :: "json \<Rightarrow> int option \<Rightarrow> error + json" where
  "call_slice (JArr items) end = Inr (JArr (slice0 items end))"
| "call_slice (JStr s) end = Inr (JStr (slice0 s end))"
| "call_slice v end = Inl TypeError"

subsection \<open>\<^verbatim>\<open>filter(callback)\<close>\<close>

text \<open>
  \<^verbatim>\<open>Array.prototype.filter\<close> calls the callback on the elements in index order
  and keeps those it accepts; an exception of the callback ends the call.
\<close>

fun filter_items :: "(json \<Rightarrow> error + bool) \<Rightarrow> json list \<Rightarrow> error + json list" where
  "filter_items callback [] = Inr []"
| "filter_items callback (item # items) =
     (case callback item of
        Inl e \<Rightarrow> Inl e
      | Inr selected \<Rightarrow>
          (case filter_items callback items of
             Inl e \<Rightarrow> Inl e
           | Inr kept \<Rightarrow> Inr (if selected then item # kept else kept)))"

text \<open>Only an array has a callable \<^verbatim>\<open>filter\<close>.\<close>

fun call_filter :: "json \<Rightarrow> (json \<Rightarrow> error + bool) \<Rightarrow> error + json" where
  "call_filter (JArr items) callback =
     (case filter_items callback items of Inl e \<Rightarrow> Inl e | Inr kept \<Rightarrow> Inr (JArr kept))"
| "call_filter v callback = Inl TypeError"

text \<open>
  \<^verbatim>\<open>item.category\<close>: reading a property of \<^verbatim>\<open>null\<close> throws; an object gives its
  own property or \<^verbatim>\<open>undefined\<close> (\<open>None\<close>); no other value has such a property.
\<close>

fun get_category :: "json \<Rightarrow> error + json option" where
  "get_category JNull = Inl TypeError"
| "get_category (JObj props) = Inr (map_of props (utf16 ''category''))"
| "get_category v = Inr None"

text \<open>\<^verbatim>\<open>v === s\<close> for a string \<open>s\<close>: the same type and the same code units.\<close>

fun strict_equals :: "json option \<Rightarrow> jsstring \<Rightarrow> bool" where
  "strict_equals (Some (JStr t)) s = (t = s)"
| "strict_equals v s = False"

section \<open>The request handler\<close>

text \<open>
  The request as the handler sees it once the URL is taken apart: the method, the
  path and the query parameters (\<^verbatim>\<open>Object.fromEntries(url.searchParams)\<close>, one
  string for each key present).
\<close>

record request =
  req_method :: jsstring
  pathName :: jsstring
  queryParams :: "jsstring \<rightharpoonup> jsstring"

text \<open>
  The world outside the handler: what \<^verbatim>\<open>fs.readFile\<close> of \<^verbatim>\<open>data.json\<close>
  gives at this request, and \<^verbatim>\<open>JSON.parse\<close>.
\<close>

record env =
  readFile :: "error + jsstring"
  JSON_parse :: "jsstring \<Rightarrow> error + json"

text \<open>
  What is written to \<^verbatim>\<open>res\<close>: the status and the content type of
  \<^verbatim>\<open>writeHead\<close>, and the argument of \<^verbatim>\<open>end\<close>, either a fixed text or the
  serialisation of a value.
\<close>

datatype body = Text jsstring | JSON_stringify json

record response =
  status :: nat
  content_type :: jsstring
  payload :: body

definition home_page :: jsstring where
  "home_page = utf16 (concat
     [''<!DOCTYPE html>\<newline>'',
      ''<html>\<newline>'',
      ''  <head>\<newline>'',
      ''    <title>Home Page</title>\<newline>'',
      ''  </head>\<newline>'',
      ''  <body>\<newline>'',
      ''    <h1>Welcome to the Home Page</h1>\<newline>'',
      ''    <p>This is the home page content.</p>\<newline>'',
      ''  </body>\<newline>'',
      ''</html>''])"

text \<open>Lines 65 and 66: read the file, parse it.\<close>

definition load_data :: "env \<Rightarrow> error + json" where
  "load_data e =
     (case readFile e of
        Inl err \<Rightarrow> Inl err
      | Inr data \<Rightarrow> JSON_parse e data)"

text \<open>
  Lines 86 to 90. \<^verbatim>\<open>if (queryParams.category)\<close> holds for a parameter that is
  present and not the empty string.
\<close>

definition category_callback :: "jsstring \<Rightarrow> json \<Rightarrow> error + bool" where
  \<comment> \<open>\<^verbatim>\<open>(item) => item.category === queryParams.category\<close>\<close>
  "category_callback category item =
     (case get_category item of
        Inl err \<Rightarrow> Inl err
      | Inr v \<Rightarrow> Inr (strict_equals v category))"

definition category_filter :: "(jsstring \<rightharpoonup> jsstring) \<Rightarrow> json \<Rightarrow> error + json" where
  "category_filter q productData =
     (case q (utf16 ''category'') of
        None \<Rightarrow> Inr productData
      | Some category \<Rightarrow>
          if category = [] then Inr productData
          else call_filter productData (category_callback category))"

text \<open>Lines 96 to 98, with the same test on \<^verbatim>\<open>queryParams.limit\<close>.\<close>

definition limit_slice :: "(jsstring \<rightharpoonup> jsstring) \<Rightarrow> json \<Rightarrow> error + json" where
  "limit_slice q productData =
     (case q (utf16 ''limit'') of
        None \<Rightarrow> Inr productData
      | Some limit \<Rightarrow>
          if limit = [] then Inr productData
          else call_slice productData (parseInt limit))"

text \<open>The \<^verbatim>\<open>try\<close> block up to line 98: the value of \<^verbatim>\<open>productData\<close>, or what was thrown.\<close>

definition api_data :: "env \<Rightarrow> (jsstring \<rightharpoonup> jsstring) \<Rightarrow> error + json" where
  "api_data e q =
     (case load_data e of
        Inl err \<Rightarrow> Inl err
      | Inr productData \<Rightarrow>
          (case category_filter q productData of
             Inl err \<Rightarrow> Inl err
           | Inr productData \<Rightarrow> limit_slice q productData))"

text \<open>Lines 48 to 111: the routes, and the \<^verbatim>\<open>catch\<close> of the data route.\<close>

definition handler :: "env \<Rightarrow> request \<Rightarrow> response" where
  "handler e req =
     (if pathName req = utf16 ''/'' then
        \<lparr>status = 200, content_type = utf16 ''text/html'', payload = Text home_page\<rparr>
      else if pathName req = utf16 ''/api'' then
        (case api_data e (queryParams req) of
           Inr productData \<Rightarrow>
             \<lparr>status = 200, content_type = utf16 ''application/json'',
              payload = JSON_stringify productData\<rparr>
         | Inl err \<Rightarrow>
             \<lparr>status = 404, content_type = utf16 ''application/json'',
              payload = JSON_stringify
                (JObj [(utf16 ''error'', JStr (utf16 ''Data file not found''))])\<rparr>)
      else
        \<lparr>status = 404, content_type = utf16 ''text/html'',
         payload = Text (utf16 ''<h1>404 - Page Not Found</h1>'')\<rparr>)"

subsection \<open>The listener from the incoming message\<close>


text \<open>
  What line 30 takes from \<^verbatim>\<open>new URL(input, base)\<close>: the path and the entries of
  \<^verbatim>\<open>searchParams\<close> in their order. The constructor throws a TypeError on an
  input it cannot parse against the base; it is a parameter of the listener.
\<close>

record parsed_url =
  pathname :: jsstring
  searchParams :: "(jsstring \<times> jsstring) list"

type_synonym url_constructor = "jsstring \<Rightarrow> jsstring \<Rightarrow> error + parsed_url"






section \<open>Notions of the specification and example inputs\<close>

text \<open>
  A record "whose category field equals \<open>X\<close>": an object with an own property
  \<^verbatim>\<open>category\<close> that is the string \<open>X\<close>, code unit for code unit.
\<close>

fun has_category :: "jsstring \<Rightarrow> json \<Rightarrow> bool" where
  "has_category X (JObj props) = (map_of props (utf16 ''category'') = Some (JStr X))"
| "has_category X v = False"

text \<open>The record \<^verbatim>\<open>{category: c}\<close> and the record \<^verbatim>\<open>{id: n, category: c}\<close>.\<close>

definition cat_record :: "string \<Rightarrow> json" where
  "cat_record c = JObj [(utf16 ''category'', JStr (utf16 c))]"

definition product :: "rat \<Rightarrow> string \<Rightarrow> json" where
  "product n c = JObj [(utf16 ''id'', JNum n), (utf16 ''category'', JStr (utf16 c))]"

text \<open>A world whose \<^verbatim>\<open>data.json\<close> holds the text \<open>doc\<close>, which parses to \<open>v\<close>.\<close>

definition file_env :: "jsstring \<Rightarrow> json \<Rightarrow> env" where
  "file_env doc v =
     \<lparr>readFile = Inr doc,
      JSON_parse = (\<lambda>data. if data = doc then Inr v else Inl SyntaxError)\<rparr>"

text \<open>A world without \<^verbatim>\<open>data.json\<close>, and one whose file is not JSON.\<close>

definition missing_file_env :: env where
  "missing_file_env = \<lparr>readFile = Inl IOError, JSON_parse = (\<lambda>data. Inl SyntaxError)\<rparr>"

definition corrupt_file_env :: env where
  "corrupt_file_env =
     \<lparr>readFile = Inr (utf16 ''[{''), JSON_parse = (\<lambda>data. Inl SyntaxError)\<rparr>"

text \<open>A collection of three products, and the world whose file holds it.\<close>

definition products :: "json list" where
  "products = [product 1 ''a'', product 2 ''b'', product 3 ''a'']"

definition products_env :: env where
  "products_env = file_env (utf16 ''data'') (JArr products)"

text \<open>A collection whose categories differ in case and in white space.\<close>

definition mixed_products :: "json list" where
  "mixed_products =
     [product 1 ''a'', product 2 ''A'', product 3 '' a'', product 4 ''b'', product 5 ''a'',
      JObj [(utf16 ''id'', JNum 6)]]"

text \<open>
  The URL constructor on the request targets of the examples below, with the
  results \<^verbatim>\<open>new URL\<close> gives for them against any \<^verbatim>\<open>http\<close> base with a host.
\<close>

definition example_URL :: url_constructor where
  "example_URL input base =
     (if input = utf16 ''/api?limit=1'' then
        Inr \<lparr>pathname = utf16 ''/api'', searchParams = [(utf16 ''limit'', utf16 ''1'')]\<rparr>
      else if input = utf16 ''/api?limit=9&limit=1'' then
        Inr \<lparr>pathname = utf16 ''/api'',
             searchParams = [(utf16 ''limit'', utf16 ''9''), (utf16 ''limit'', utf16 ''1'')]\<rparr>
      else Inl TypeError)"

definition get_request :: "string \<Rightarrow> (jsstring \<rightharpoonup> jsstring) \<Rightarrow> request" where
  "get_request path q =
     \<lparr>req_method = utf16 ''GET'', pathName = utf16 path, queryParams = q\<rparr>"

lemmas js_defs =
  utf16_def parseInt_def isWhiteSpace_def radixDigit_def digitValue_def digitNat_def
  mathInt_def sliceFinal_def slice0_def

lemmas server_defs =
  load_data_def category_callback_def category_filter_def limit_slice_def api_data_def
  handler_def


lemmas example_defs =
  cat_record_def product_def file_env_def missing_file_env_def corrupt_file_env_def
  products_def products_env_def get_request_def mixed_products_def example_URL_def

section \<open>Facts about the runtime functions\<close>

lemma strict_equals_iff: "strict_equals v s \<longleftrightarrow> v = Some (JStr s)"
  by (cases "(v, s)" rule: strict_equals.cases) auto

lemma category_callback_value:
  "item \<noteq> JNull \<Longrightarrow> category_callback X item = Inr (has_category X item)"
  by (cases item) (simp_all add: category_callback_def strict_equals_iff)

lemma filter_items_total:
  "\<forall>x\<in>set items. callback x = Inr (p x) \<Longrightarrow>
     filter_items callback items = Inr (filter p items)"
  by (induction items) simp_all

lemma filter_items_subseq:
  "filter_items callback items = Inr kept \<Longrightarrow> subseq kept items"
  by (induction items arbitrary: kept) (auto split: sum.splits if_splits)

lemma filter_items_null:
  "JNull \<in> set items \<Longrightarrow> filter_items (category_callback X) items = Inl TypeError"
proof (induction items)
  case Nil
  then show ?case by simp
next
  case (Cons item items)
  show ?case
  proof (cases "item = JNull")
    case True
    then show ?thesis by (simp add: category_callback_def)
  next
    case False
    with Cons have "filter_items (category_callback X) items = Inl TypeError" by simp
    with False show ?thesis by (simp add: category_callback_value)
  qed
qed

lemma category_filter_records:
  assumes "q (utf16 ''category'') = Some X" and "X \<noteq> []" and "JNull \<notin> set items"
  shows "category_filter q (JArr items) = Inr (JArr (filter (has_category X) items))"
proof -
  from assms(3) have "\<forall>x\<in>set items. category_callback X x = Inr (has_category X x)"
    by (auto intro!: category_callback_value)
  then have "filter_items (category_callback X) items = Inr (filter (has_category X) items)"
    by (rule filter_items_total)
  with assms(1,2) show ?thesis by (simp add: category_filter_def)
qed

lemma category_filter_off:
  "q (utf16 ''category'') = None \<or> q (utf16 ''category'') = Some [] \<Longrightarrow>
     category_filter q productData = Inr productData"
  by (auto simp: category_filter_def)

lemma category_filter_array:
  "category_filter q (JArr items) = Inr v \<Longrightarrow> \<exists>kept. v = JArr kept \<and> subseq kept items"
  by (auto simp: category_filter_def filter_items_subseq
      split: option.splits if_splits sum.splits)

lemma parseInt_empty: "parseInt [] = None"
  by (simp add: parseInt_def)

lemma slice0_prefix: "prefix (slice0 xs end) xs"
  by (simp add: slice0_def take_is_prefix)

lemma slice0_NaN: "slice0 xs None = []"
  by (simp add: slice0_def sliceFinal_def)

lemma slice0_nonneg: "0 \<le> N \<Longrightarrow> slice0 xs (Some N) = take (nat N) xs"
  by (simp add: slice0_def sliceFinal_def min_def)

lemma limit_slice_array:
  "\<exists>limited. limit_slice q (JArr filtered) = Inr (JArr limited) \<and> prefix limited filtered"
  by (auto simp: limit_slice_def slice0_prefix split: option.splits)

lemma api_data_steps:
  "load_data e = Inr productData \<Longrightarrow> category_filter q productData = Inr filtered \<Longrightarrow>
     api_data e q = limit_slice q filtered"
  by (simp add: api_data_def)

lemma limit_slice_off:
  "q (utf16 ''limit'') = None \<or> q (utf16 ''limit'') = Some [] \<Longrightarrow>
     limit_slice q productData = Inr productData"
  by (auto simp: limit_slice_def)

lemma limit_slice_empty: "limit_slice q (JArr []) = Inr (JArr [])"
  by (simp add: limit_slice_def slice0_def split: option.splits)

lemma handler_api_ok:
  "api_data e q = Inr productData \<Longrightarrow>
     handler e \<lparr>req_method = m, pathName = utf16 ''/api'', queryParams = q\<rparr> =
       \<lparr>status = 200, content_type = utf16 ''application/json'',
        payload = JSON_stringify productData\<rparr>"
  by (simp add: handler_def utf16_def)


lemma load_file_env: "load_data (file_env doc v) = Inr v"
  by (simp add: load_data_def file_env_def)

lemma load_products_env: "load_data products_env = Inr (JArr products)"
  by (simp add: products_env_def load_file_env)

lemma products_records: "JNull \<notin> set products"
  by (simp add: products_def product_def)

lemma get_request_path: "pathName (get_request path q) = utf16 path"
  by (simp add: get_request_def)

section \<open>Routing\<close>

text \<open>
  C2. Routing is by exact path match. A request for the path \<^verbatim>\<open>/\<close> is answered
  with status 200, content type \<^verbatim>\<open>text/html\<close> and the home page, whatever its
  query parameters, its method and the state of the data file; a request for a
  path that is neither \<^verbatim>\<open>/\<close> nor \<^verbatim>\<open>/api\<close> is answered with status 404.
\<close>

theorem routing_exact_path:
  "(pathName req = utf16 ''/'' \<longrightarrow>
      handler e req =
        \<lparr>status = 200, content_type = utf16 ''text/html'', payload = Text home_page\<rparr>) \<and>
   (pathName req \<noteq> utf16 ''/'' \<and> pathName req \<noteq> utf16 ''/api'' \<longrightarrow>
      status (handler e req) = 404)"
  by (simp add: handler_def)

theorem routing_exact_path_witness:
  "status (handler missing_file_env
             (get_request ''/'' [utf16 ''limit'' \<mapsto> utf16 ''abc''])) = 200 \<and>
   content_type (handler missing_file_env
             (get_request ''/'' [utf16 ''limit'' \<mapsto> utf16 ''abc''])) = utf16 ''text/html'' \<and>
   status (handler products_env (get_request ''/api/'' Map.empty)) = 404 \<and>
   status (handler products_env (get_request ''/API'' Map.empty)) = 404 \<and>
   status (handler products_env (get_request ''/about'' Map.empty)) = 404"
  using
    routing_exact_path
      [of "get_request ''/'' [utf16 ''limit'' \<mapsto> utf16 ''abc'']" missing_file_env]
    routing_exact_path [of "get_request ''/api/'' Map.empty" products_env]
    routing_exact_path [of "get_request ''/API'' Map.empty" products_env]
    routing_exact_path [of "get_request ''/about'' Map.empty" products_env]
  by (simp add: get_request_def utf16_def)

section \<open>A limit that is not a number\<close>

text \<open>
  C1, as stated, fails. With the limit \<^verbatim>\<open>abc\<close> and no category the filtered
  collection is the whole collection of three records, yet the answer is the
  empty array: \<^verbatim>\<open>parseInt\<close> gives NaN and \<^verbatim>\<open>slice(0, NaN)\<close> keeps nothing.
\<close>

theorem limit_not_a_number_counterexample:
  "category_filter [utf16 ''limit'' \<mapsto> utf16 ''abc''] (JArr products) = Inr (JArr products) \<and>
   handler products_env (get_request ''/api'' [utf16 ''limit'' \<mapsto> utf16 ''abc'']) =
     \<lparr>status = 200, content_type = utf16 ''application/json'',
      payload = JSON_stringify (JArr [])\<rparr> \<and>
   JArr [] \<noteq> JArr products"
  by (simp add: server_defs example_defs js_defs)

text \<open>
  C1, amended. When the limit parameter is present and \<^verbatim>\<open>parseInt\<close> reads no
  number from it, the request does not fail: the answer has status 200, and its
  sequence is empty when the limit is a non-empty string and is the filtered
  collection unchanged only when the limit is the empty string.
\<close>

theorem limit_not_a_number:
  assumes "pathName req = utf16 ''/api''"
    and "load_data e = Inr (JArr items)"
    and "category_filter (queryParams req) (JArr items) = Inr (JArr filtered)"
    and "queryParams req (utf16 ''limit'') = Some limit"
    and "parseInt limit = None"
  shows "handler e req =
           \<lparr>status = 200, content_type = utf16 ''application/json'',
            payload = JSON_stringify (JArr (if limit = [] then filtered else []))\<rparr>"
  using assms by (simp add: handler_def api_data_def limit_slice_def slice0_NaN utf16_def)

theorem limit_not_a_number_witness:
  "handler products_env
      (get_request ''/api''
         [utf16 ''category'' \<mapsto> utf16 ''a'', utf16 ''limit'' \<mapsto> utf16 ''abc'']) =
     \<lparr>status = 200, content_type = utf16 ''application/json'',
      payload = JSON_stringify (JArr [])\<rparr> \<and>
   handler products_env
      (get_request ''/api'' [utf16 ''category'' \<mapsto> utf16 ''a'', utf16 ''limit'' \<mapsto> []]) =
     \<lparr>status = 200, content_type = utf16 ''application/json'',
      payload = JSON_stringify (JArr [product 1 ''a'', product 3 ''a''])\<rparr>"
proof -
  let ?r1 = "get_request ''/api''
               [utf16 ''category'' \<mapsto> utf16 ''a'', utf16 ''limit'' \<mapsto> utf16 ''abc'']"
  let ?r2 = "get_request ''/api'' [utf16 ''category'' \<mapsto> utf16 ''a'', utf16 ''limit'' \<mapsto> []]"
  have f1: "category_filter (queryParams ?r1) (JArr products) =
              Inr (JArr [product 1 ''a'', product 3 ''a''])"
    by (simp add: get_request_def category_filter_def category_callback_def products_def
        product_def utf16_def)
  have f2: "category_filter (queryParams ?r2) (JArr products) =
              Inr (JArr [product 1 ''a'', product 3 ''a''])"
    by (simp add: get_request_def category_filter_def category_callback_def products_def
        product_def utf16_def)
  have q1: "queryParams ?r1 (utf16 ''limit'') = Some (utf16 ''abc'')"
    by (simp add: get_request_def utf16_def)
  have q2: "queryParams ?r2 (utf16 ''limit'') = Some []"
    by (simp add: get_request_def utf16_def)
  have n1: "parseInt (utf16 ''abc'') = None"
    by (simp add: js_defs)
  from limit_not_a_number [OF get_request_path load_products_env f1 q1 n1]
    limit_not_a_number [OF get_request_path load_products_env f2 q2 parseInt_empty]
  show ?thesis by (simp add: utf16_def)
qed

section \<open>The category filter\<close>

text \<open>
  C3. For a category parameter \<open>X\<close> that is not empty and a collection of
  records (an array without \<^verbatim>\<open>null\<close> entries), the data handler retains
  exactly the records whose category field is the string \<open>X\<close>, compared code
  unit by code unit with nothing trimmed or folded, in their original order:
  the filter step gives them, the limit step receives them, and without a limit
  they are the body of the answer, with status 200. When no record matches,
  the result is the empty array and not an error, whatever the limit.
\<close>

theorem category_filter_exact:
  assumes "q (utf16 ''category'') = Some X" and "X \<noteq> []" and "JNull \<notin> set items"
  shows "category_filter q (JArr items) = Inr (JArr (filter (has_category X) items)) \<and>
         ((\<forall>r\<in>set items. \<not> has_category X r) \<longrightarrow>
            category_filter q (JArr items) = Inr (JArr [])) \<and>
         (load_data e = Inr (JArr items) \<longrightarrow>
            api_data e q = limit_slice q (JArr (filter (has_category X) items)) \<and>
            (q (utf16 ''limit'') = None \<or> q (utf16 ''limit'') = Some [] \<longrightarrow>
               api_data e q = Inr (JArr (filter (has_category X) items)) \<and>
               handler e \<lparr>req_method = m, pathName = utf16 ''/api'', queryParams = q\<rparr> =
                 \<lparr>status = 200, content_type = utf16 ''application/json'',
                  payload = JSON_stringify (JArr (filter (has_category X) items))\<rparr>) \<and>
            ((\<forall>r\<in>set items. \<not> has_category X r) \<longrightarrow>
               api_data e q = Inr (JArr []) \<and>
               handler e \<lparr>req_method = m, pathName = utf16 ''/api'', queryParams = q\<rparr> =
                 \<lparr>status = 200, content_type = utf16 ''application/json'',
                  payload = JSON_stringify (JArr [])\<rparr>))"
proof -
  let ?kept = "filter (has_category X) items"
  have step: "category_filter q (JArr items) = Inr (JArr ?kept)"
    using assms by (rule category_filter_records)
  have none: "?kept = []" if "\<forall>r\<in>set items. \<not> has_category X r"
    using that by (simp add: filter_empty_conv)
  have api: "api_data e q = limit_slice q (JArr ?kept)" if "load_data e = Inr (JArr items)"
    using that step by (rule api_data_steps)
  have unlimited: "api_data e q = Inr (JArr ?kept)"
    if "load_data e = Inr (JArr items)"
      and "q (utf16 ''limit'') = None \<or> q (utf16 ''limit'') = Some []"
    using api [OF that(1)] limit_slice_off [of q "JArr ?kept"] that(2) by simp
  have unmatched: "api_data e q = Inr (JArr [])"
    if "load_data e = Inr (JArr items)" and "\<forall>r\<in>set items. \<not> has_category X r"
    using api [OF that(1)] none [OF that(2)] by (simp add: limit_slice_empty)
  show ?thesis
  proof (intro conjI impI)
    show "category_filter q (JArr items) = Inr (JArr ?kept)"
      by (rule step)
  next
    assume "\<forall>r\<in>set items. \<not> has_category X r"
    with step none show "category_filter q (JArr items) = Inr (JArr [])"
      by simp
  next
    assume "load_data e = Inr (JArr items)"
    then show "api_data e q = limit_slice q (JArr ?kept)"
      by (rule api)
  next
    assume "load_data e = Inr (JArr items)"
      and "q (utf16 ''limit'') = None \<or> q (utf16 ''limit'') = Some []"
    then show "api_data e q = Inr (JArr ?kept)"
      by (rule unlimited)
  next
    assume "load_data e = Inr (JArr items)"
      and "q (utf16 ''limit'') = None \<or> q (utf16 ''limit'') = Some []"
    then have "api_data e q = Inr (JArr ?kept)"
      by (rule unlimited)
    then show "handler e \<lparr>req_method = m, pathName = utf16 ''/api'', queryParams = q\<rparr> =
        \<lparr>status = 200, content_type = utf16 ''application/json'',
         payload = JSON_stringify (JArr ?kept)\<rparr>"
      by (rule handler_api_ok)
  next
    assume "load_data e = Inr (JArr items)" and "\<forall>r\<in>set items. \<not> has_category X r"
    then show "api_data e q = Inr (JArr [])"
      by (rule unmatched)
  next
    assume "load_data e = Inr (JArr items)" and "\<forall>r\<in>set items. \<not> has_category X r"
    then have "api_data e q = Inr (JArr [])"
      by (rule unmatched)
    then show "handler e \<lparr>req_method = m, pathName = utf16 ''/api'', queryParams = q\<rparr> =
        \<lparr>status = 200, content_type = utf16 ''application/json'',
         payload = JSON_stringify (JArr [])\<rparr>"
      by (rule handler_api_ok)
  qed
qed

theorem category_filter_exact_witness:
  "handler (file_env (utf16 ''data'') (JArr mixed_products))
      (get_request ''/api'' [utf16 ''category'' \<mapsto> utf16 ''a'']) =
     \<lparr>status = 200, content_type = utf16 ''application/json'',
      payload = JSON_stringify (JArr [product 1 ''a'', product 5 ''a''])\<rparr> \<and>
   handler (file_env (utf16 ''data'') (JArr mixed_products))
      (get_request ''/api''
         [utf16 ''category'' \<mapsto> utf16 ''toys'', utf16 ''limit'' \<mapsto> utf16 ''2'']) =
     \<lparr>status = 200, content_type = utf16 ''application/json'',
      payload = JSON_stringify (JArr [])\<rparr> \<and>
   category_filter [utf16 ''category'' \<mapsto> utf16 ''a''] (JArr mixed_products) =
     Inr (JArr [product 1 ''a'', product 5 ''a''])"
proof -
  let ?e = "file_env (utf16 ''data'') (JArr mixed_products)"
  let ?qa = "[utf16 ''category'' \<mapsto> utf16 ''a'']"
  let ?qt = "[utf16 ''category'' \<mapsto> utf16 ''toys'', utf16 ''limit'' \<mapsto> utf16 ''2'']"
  have ca: "?qa (utf16 ''category'') = Some (utf16 ''a'')"
    and ct: "?qt (utf16 ''category'') = Some (utf16 ''toys'')"
    by (simp_all add: utf16_def)
  have xa: "utf16 ''a'' \<noteq> []" and xt: "utf16 ''toys'' \<noteq> []"
    by (simp_all add: utf16_def)
  have nn: "JNull \<notin> set mixed_products"
    by (simp add: mixed_products_def product_def)
  have la: "?qa (utf16 ''limit'') = None \<or> ?qa (utf16 ''limit'') = Some []"
    by (simp add: utf16_def)
  have ka: "filter (has_category (utf16 ''a'')) mixed_products = [product 1 ''a'', product 5 ''a'']"
    by (simp add: mixed_products_def product_def utf16_def)
  have kt: "\<forall>r\<in>set mixed_products. \<not> has_category (utf16 ''toys'') r"
    by (simp add: mixed_products_def product_def utf16_def)
  note a =
    category_filter_exact [of ?qa "utf16 ''a''" mixed_products ?e "utf16 ''GET''", OF ca xa nn]
  note t =
    category_filter_exact [of ?qt "utf16 ''toys''" mixed_products ?e "utf16 ''GET''",
      OF ct xt nn]
  from a la have "handler ?e (get_request ''/api'' ?qa) =
     \<lparr>status = 200, content_type = utf16 ''application/json'',
      payload = JSON_stringify (JArr (filter (has_category (utf16 ''a'')) mixed_products))\<rparr>"
    unfolding get_request_def by (simp only: load_file_env simp_thms)
  moreover from t kt have "handler ?e (get_request ''/api'' ?qt) =
     \<lparr>status = 200, content_type = utf16 ''application/json'',
      payload = JSON_stringify (JArr [])\<rparr>"
    unfolding get_request_def by (simp only: load_file_env simp_thms)
  moreover from a have "category_filter ?qa (JArr mixed_products) =
      Inr (JArr (filter (has_category (utf16 ''a'')) mixed_products))"
    by (rule conjunct1)
  ultimately show ?thesis
    by (simp only: ka simp_thms)
qed

section \<open>The limit\<close>

text \<open>
  C4. When \<^verbatim>\<open>parseInt\<close> reads a non-negative integer \<open>N\<close> from the limit, the
  data handler returns the first \<open>N\<close> records of the filtered collection: the
  result has length \<open>min N (length filtered)\<close>, it is empty for \<open>N = 0\<close>, and it
  is the filtered collection unchanged when \<open>N\<close> is at least its length.
\<close>

theorem limit_nonneg_length:
  assumes "load_data e = Inr (JArr items)"
    and "category_filter q (JArr items) = Inr (JArr filtered)"
    and "q (utf16 ''limit'') = Some limit" and "parseInt limit = Some N" and "0 \<le> N"
  shows "\<exists>limited. api_data e q = Inr (JArr limited) \<and>
           limited = take (nat N) filtered \<and>
           length limited = min (nat N) (length filtered) \<and>
           (N = 0 \<longrightarrow> limited = []) \<and>
           (int (length filtered) \<le> N \<longrightarrow> limited = filtered)"
proof -
  from assms(4) have "limit \<noteq> []"
    using parseInt_empty by auto
  with assms(3-5) have "limit_slice q (JArr filtered) = Inr (JArr (take (nat N) filtered))"
    by (simp add: limit_slice_def slice0_nonneg)
  with assms(1,2) have "api_data e q = Inr (JArr (take (nat N) filtered))"
    by (simp add: api_data_steps)
  then show ?thesis by (auto simp: min_def)
qed

theorem limit_nonneg_length_witness:
  "api_data products_env [utf16 ''limit'' \<mapsto> utf16 ''2''] =
     Inr (JArr [product 1 ''a'', product 2 ''b'']) \<and>
   api_data products_env [utf16 ''limit'' \<mapsto> utf16 ''0''] = Inr (JArr []) \<and>
   api_data products_env [utf16 ''limit'' \<mapsto> utf16 ''5abc''] =
     Inr (JArr [product 1 ''a'', product 2 ''b'', product 3 ''a''])"
proof -
  have f: "category_filter [utf16 ''limit'' \<mapsto> l] (JArr products) = Inr (JArr products)" for l
    by (simp add: category_filter_def utf16_def)
  have n2: "parseInt (utf16 ''2'') = Some 2" and n0: "parseInt (utf16 ''0'') = Some 0"
    and n5: "parseInt (utf16 ''5abc'') = Some 5"
    by (simp_all add: js_defs)
  have q: "[utf16 ''limit'' \<mapsto> l] (utf16 ''limit'') = Some l" for l
    by simp
  from
    limit_nonneg_length [of products_env products "[utf16 ''limit'' \<mapsto> utf16 ''2'']" products
      "utf16 ''2''" 2, OF load_products_env f q n2]
    limit_nonneg_length [of products_env products "[utf16 ''limit'' \<mapsto> utf16 ''0'']" products
      "utf16 ''0''" 0, OF load_products_env f q n0]
    limit_nonneg_length [of products_env products "[utf16 ''limit'' \<mapsto> utf16 ''5abc'']" products
      "utf16 ''5abc''" 5, OF load_products_env f q n5]
  show ?thesis by (simp add: products_def)
qed

section \<open>Filter first, limit second\<close>

text \<open>
  C5. With a category \<open>X\<close> that is not empty and a limit from which
  \<^verbatim>\<open>parseInt\<close> reads a non-negative \<open>K\<close>, the data handler filters first and
  limits second: on a collection of records it returns the first \<open>K\<close> of the
  records matching \<open>X\<close>, in their original order. On the collection
  \<^verbatim>\<open>[{category:"a"},{category:"b"},{category:"a"}]\<close> with
  \<^verbatim>\<open>category=a&limit=1\<close> the result is \<^verbatim>\<open>[{category:"a"}]\<close>.
\<close>

theorem filter_then_limit:
  assumes "load_data e = Inr (JArr items)" and "JNull \<notin> set items"
    and "q (utf16 ''category'') = Some X" and "X \<noteq> []"
    and "q (utf16 ''limit'') = Some limit" and "parseInt limit = Some K" and "0 \<le> K"
  shows "api_data e q = Inr (JArr (take (nat K) (filter (has_category X) items))) \<and>
         api_data
           (file_env (utf16 ''data'')
              (JArr [cat_record ''a'', cat_record ''b'', cat_record ''a'']))
           [utf16 ''category'' \<mapsto> utf16 ''a'', utf16 ''limit'' \<mapsto> utf16 ''1''] =
           Inr (JArr [cat_record ''a''])"
proof -
  from assms(6) have ne: "limit \<noteq> []"
    using parseInt_empty by auto
  have "category_filter q (JArr items) = Inr (JArr (filter (has_category X) items))"
    using assms(3,4,2) by (rule category_filter_records)
  with assms ne have "api_data e q = Inr (JArr (take (nat K) (filter (has_category X) items)))"
    by (simp add: api_data_def limit_slice_def slice0_nonneg)
  moreover have "api_data
           (file_env (utf16 ''data'')
              (JArr [cat_record ''a'', cat_record ''b'', cat_record ''a'']))
           [utf16 ''category'' \<mapsto> utf16 ''a'', utf16 ''limit'' \<mapsto> utf16 ''1''] =
           Inr (JArr [cat_record ''a''])"
    by (simp add: server_defs example_defs js_defs)
  ultimately show ?thesis by simp
qed

theorem filter_then_limit_witness:
  "api_data products_env
      [utf16 ''category'' \<mapsto> utf16 ''a'', utf16 ''limit'' \<mapsto> utf16 ''1''] =
     Inr (JArr [product 1 ''a''])"
proof -
  let ?q = "[utf16 ''category'' \<mapsto> utf16 ''a'', utf16 ''limit'' \<mapsto> utf16 ''1'']"
  have c: "?q (utf16 ''category'') = Some (utf16 ''a'')"
    by (simp add: utf16_def)
  have x: "utf16 ''a'' \<noteq> []"
    by (simp add: utf16_def)
  have l: "?q (utf16 ''limit'') = Some (utf16 ''1'')"
    by (simp add: utf16_def)
  have n: "parseInt (utf16 ''1'') = Some 1"
    by (simp add: js_defs)
  have k: "(0::int) \<le> 1"
    by simp
  have t: "take (nat 1) (filter (has_category (utf16 ''a'')) products) = [product 1 ''a'']"
    by (simp add: products_def product_def utf16_def)
  have "api_data products_env ?q =
          Inr (JArr (take (nat 1) (filter (has_category (utf16 ''a'')) products)))"
    using filter_then_limit [of products_env products ?q "utf16 ''a''" "utf16 ''1''" 1,
        OF load_products_env products_records c x l n k]
    by (rule conjunct1)
  then show ?thesis by (simp only: t)
qed

section \<open>The result is a subsequence of the collection\<close>

text \<open>
  C6. For every combination of query parameters and every loaded array, a
  sequence returned by the data handler is a subsequence of the loaded one:
  nothing is reordered and nothing is added. On a collection of records (no
  \<^verbatim>\<open>null\<close> entry) the handler always returns such a sequence.
\<close>

theorem result_is_subsequence:
  assumes "load_data e = Inr (JArr items)"
  shows "(\<forall>v. api_data e q = Inr v \<longrightarrow> (\<exists>rs. v = JArr rs \<and> subseq rs items)) \<and>
         (JNull \<notin> set items \<longrightarrow> (\<exists>rs. api_data e q = Inr (JArr rs) \<and> subseq rs items))"
proof -
  have returned: "\<exists>rs. v = JArr rs \<and> subseq rs items" if "api_data e q = Inr v" for v
  proof -
    from that assms obtain w where w: "category_filter q (JArr items) = Inr w"
      and v: "limit_slice q w = Inr v"
      by (auto simp: api_data_def split: sum.splits)
    from w obtain kept where k: "w = JArr kept" "subseq kept items"
      using category_filter_array by blast
    obtain limited where "limit_slice q (JArr kept) = Inr (JArr limited)" "prefix limited kept"
      using limit_slice_array by blast
    with v k have "v = JArr limited" "subseq limited kept"
      by (auto intro: prefix_imp_subseq)
    with k show ?thesis
      using subseq_order.order_trans by blast
  qed
  have returns: "\<exists>v. api_data e q = Inr v" if "JNull \<notin> set items"
  proof (cases "q (utf16 ''category'') = None \<or> q (utf16 ''category'') = Some []")
    case True
    then have "category_filter q (JArr items) = Inr (JArr items)"
      by (rule category_filter_off)
    with assms limit_slice_array [of q items] show ?thesis
      by (auto simp: api_data_def)
  next
    case False
    then obtain X where "q (utf16 ''category'') = Some X" "X \<noteq> []"
      by auto
    with that have "category_filter q (JArr items) = Inr (JArr (filter (has_category X) items))"
      by (intro category_filter_records)
    with assms limit_slice_array [of q "filter (has_category X) items"] show ?thesis
      by (auto simp: api_data_def)
  qed
  from returned returns show ?thesis by blast
qed

theorem result_is_subsequence_witness:
  "(\<exists>rs. api_data products_env
            [utf16 ''category'' \<mapsto> utf16 ''a'', utf16 ''limit'' \<mapsto> utf16 ''-1''] =
           Inr (JArr rs) \<and>
         subseq rs products) \<and>
   api_data products_env
     [utf16 ''category'' \<mapsto> utf16 ''a'', utf16 ''limit'' \<mapsto> utf16 ''-1''] =
     Inr (JArr [product 1 ''a''])"
proof -
  let ?q = "[utf16 ''category'' \<mapsto> utf16 ''a'', utf16 ''limit'' \<mapsto> utf16 ''-1'']"
  have v: "api_data products_env ?q = Inr (JArr [product 1 ''a''])"
    by (simp add: server_defs example_defs js_defs)
  from result_is_subsequence [of products_env products ?q, OF load_products_env]
    products_records
  have "\<exists>rs. api_data products_env ?q = Inr (JArr rs) \<and> subseq rs products"
    by blast
  with v show ?thesis by blast
qed

section \<open>A data source that cannot be read or parsed\<close>

text \<open>
  C7. When \<^verbatim>\<open>data.json\<close> cannot be read, or its content cannot be parsed, a
  request to the data route is answered with status 404 and the body
  \<^verbatim>\<open>{"error":"Data file not found"}\<close>. The failure is caught in the handler:
  the answer is this one response, and nothing of the data is in it.
\<close>

theorem data_unavailable_404:
  assumes "pathName req = utf16 ''/api''"
    and "(\<exists>err. readFile e = Inl err) \<or>
         (\<exists>data err. readFile e = Inr data \<and> JSON_parse e data = Inl err)"
  shows "handler e req =
           \<lparr>status = 404, content_type = utf16 ''application/json'',
            payload = JSON_stringify
              (JObj [(utf16 ''error'', JStr (utf16 ''Data file not found''))])\<rparr>"
proof -
  from assms(2) obtain err where "load_data e = Inl err"
    by (auto simp: load_data_def)
  with assms(1) show ?thesis
    by (simp add: handler_def api_data_def utf16_def)
qed

theorem data_unavailable_404_witness:
  "handler missing_file_env (get_request ''/api'' [utf16 ''limit'' \<mapsto> utf16 ''2'']) =
     \<lparr>status = 404, content_type = utf16 ''application/json'',
      payload = JSON_stringify
        (JObj [(utf16 ''error'', JStr (utf16 ''Data file not found''))])\<rparr> \<and>
   handler corrupt_file_env (get_request ''/api'' Map.empty) =
     \<lparr>status = 404, content_type = utf16 ''application/json'',
      payload = JSON_stringify
        (JObj [(utf16 ''error'', JStr (utf16 ''Data file not found''))])\<rparr>"
proof -
  have m: "(\<exists>err. readFile missing_file_env = Inl err) \<or>
      (\<exists>data err. readFile missing_file_env = Inr data \<and>
         JSON_parse missing_file_env data = Inl err)"
    by (simp add: missing_file_env_def)
  have c: "(\<exists>err. readFile corrupt_file_env = Inl err) \<or>
      (\<exists>data err. readFile corrupt_file_env = Inr data \<and>
         JSON_parse corrupt_file_env data = Inl err)"
    by (simp add: corrupt_file_env_def)
  from data_unavailable_404 [OF get_request_path m] data_unavailable_404 [OF get_request_path c]
  show ?thesis by simp
qed

section \<open>No category, no filtering\<close>

text \<open>
  C8. When the category parameter is absent or is the empty string, the filter
  step changes nothing: the value that reaches the limit step is the loaded
  collection itself.
\<close>

theorem no_category_no_filter:
  assumes "q (utf16 ''category'') = None \<or> q (utf16 ''category'') = Some []"
  shows "category_filter q productData = Inr productData \<and>
         (load_data e = Inr productData \<longrightarrow> api_data e q = limit_slice q productData)"
  using assms by (auto simp: category_filter_def api_data_def)

theorem no_category_no_filter_witness:
  "category_filter [utf16 ''limit'' \<mapsto> utf16 ''2''] (JArr products) = Inr (JArr products) \<and>
   category_filter [utf16 ''category'' \<mapsto> []] (JArr products) = Inr (JArr products) \<and>
   api_data products_env [utf16 ''category'' \<mapsto> []] = Inr (JArr products)"
proof -
  have "limit_slice [utf16 ''category'' \<mapsto> []] (JArr products) = Inr (JArr products)"
    by (simp add: limit_slice_def utf16_def)
  with
    no_category_no_filter [of "[utf16 ''limit'' \<mapsto> utf16 ''2'']" "JArr products" products_env]
    no_category_no_filter [of "[utf16 ''category'' \<mapsto> []]" "JArr products" products_env]
    load_products_env
  show ?thesis by (simp add: utf16_def)
qed

section \<open>Any limit keeps an initial segment\<close>

text \<open>
  C9. For every limit string, negative numerals and strings without a numeric
  prefix included, the sequence the data handler returns is a prefix of the
  filtered collection.
\<close>

theorem limit_gives_prefix:
  assumes "load_data e = Inr (JArr items)"
    and "category_filter q (JArr items) = Inr (JArr filtered)"
    and "q (utf16 ''limit'') = Some limit"
  shows "\<exists>limited. api_data e q = Inr (JArr limited) \<and>
           limit_slice q (JArr filtered) = Inr (JArr limited) \<and> prefix limited filtered"
  using assms(1,2) limit_slice_array [of q filtered] by (auto simp: api_data_steps)

theorem limit_gives_prefix_witness:
  "(\<exists>limited. api_data products_env [utf16 ''limit'' \<mapsto> utf16 ''-2''] = Inr (JArr limited) \<and>
      prefix limited products) \<and>
   api_data products_env [utf16 ''limit'' \<mapsto> utf16 ''-2''] = Inr (JArr [product 1 ''a'']) \<and>
   (\<exists>limited. api_data products_env [utf16 ''limit'' \<mapsto> utf16 ''x1''] = Inr (JArr limited) \<and>
      prefix limited products) \<and>
   api_data products_env [utf16 ''limit'' \<mapsto> utf16 ''x1''] = Inr (JArr [])"
proof -
  have f: "category_filter [utf16 ''limit'' \<mapsto> l] (JArr products) = Inr (JArr products)" for l
    by (simp add: category_filter_def utf16_def)
  have q: "[utf16 ''limit'' \<mapsto> l] (utf16 ''limit'') = Some l" for l
    by simp
  have v: "api_data products_env [utf16 ''limit'' \<mapsto> utf16 ''-2''] = Inr (JArr [product 1 ''a''])"
    "api_data products_env [utf16 ''limit'' \<mapsto> utf16 ''x1''] = Inr (JArr [])"
    by (simp_all add: server_defs example_defs js_defs)
  from
    limit_gives_prefix [of products_env products "[utf16 ''limit'' \<mapsto> utf16 ''-2'']" products
      "utf16 ''-2''", OF load_products_env f q]
    limit_gives_prefix [of products_env products "[utf16 ''limit'' \<mapsto> utf16 ''x1'']" products
      "utf16 ''x1''", OF load_products_env f q]
    v
  show ?thesis by blast
qed

section \<open>The same path and query parameters\<close>




end
